theory Spec2Isabelle
  imports Main "HOL-Library.Sublist"
begin

section \<open>Lumo: the conversation-turn orchestration of ai\_toy\_agent.py\<close>

text \<open>
  The repository is glue around two libraries: a chat model client (\<open>self.llm\<close>) and a
  one-node LangGraph workflow over \<open>MessagesState\<close> with a \<open>MemorySaver\<close> checkpointer.
  The embedding keeps the code of \<open>LumoAgent\<close> and of the Streamlit script as it is written
  and makes the two collaborators explicit:
  \<^item> the chat model answers a list of messages with one assistant message (an
    \<open>AIMessage\<close> with a text) or raises; its answer is an input of the model
    (\<open>gateway\<close>), and every list handed to it is logged;
  \<^item> the checkpointer is a dictionary from thread id to the stored message list; the
    compiled graph loads the list, appends the input with the \<open>add_messages\<close> reducer
    (new messages carry new ids, so the reducer appends), runs the node, appends what the
    node returns and stores the result.
  Only exceptions derived from Python's \<open>Exception\<close> are modelled, and the chat model is
  taken to answer (by a value or by an exception); \<open>print\<close> calls are left out.
\<close>

subsection \<open>Messages, exceptions, the agent\<close>

datatype message = SystemMessage string | HumanMessage string | AIMessage string

datatype exn =
    ValueError string
  | KeyError string
  | NetworkFailure string
  | MalformedResponse string
  | ProviderRejection string
  | AttributeError string
  | FileNotFoundError string
  | OtherException string

text \<open>The text an exception carries (\<open>str(e)\<close>).\<close>

fun message_of :: "exn \<Rightarrow> string" where
  "message_of (ValueError m) = m"
| "message_of (KeyError m) = m"
| "message_of (NetworkFailure m) = m"
| "message_of (MalformedResponse m) = m"
| "message_of (ProviderRejection m) = m"
| "message_of (AttributeError m) = m"
| "message_of (FileNotFoundError m) = m"
| "message_of (OtherException m) = m"

text \<open>\<open>ChatGoogleGenerativeAI(model=..., temperature=0.7, google_api_key=...)\<close>; the
  sampling temperature is a constant of the constructor call and is not stored here.\<close>

record chat_model =
  model :: string
  google_api_key :: string

text \<open>The fields of \<open>LumoAgent\<close>. The workflow and the compiled application are fixed
  (entry point \<open>llm_responder\<close>, one edge to \<open>END\<close>); \<open>memory\<close> is the
  \<open>MemorySaver\<close>, keyed by thread id.\<close>

record agent =
  system_prompt :: string
  model_name :: string
  llm :: "chat_model option"
  memory :: "string \<rightharpoonup> message list"

definition MODEL_NAME :: string where
  "MODEL_NAME = ''gemini-pro''"

text \<open>The stored messages of a thread; a thread without a checkpoint has none.\<close>

definition history :: "agent \<Rightarrow> string \<Rightarrow> message list" where
  "history ag c = (case memory ag c of None \<Rightarrow> [] | Some ms \<Rightarrow> ms)"

subsection \<open>The fixed texts of the source\<close>

definition trouble_thinking :: string where
  "trouble_thinking = ''Oops! I'm having a little trouble thinking right now. Please check my setup.''"

definition thinking_cap :: string where
  "thinking_cap = ''Oh dear, my thinking cap seems to be on backwards! Could you try that again?''"

definition not_available :: string where
  "not_available = ''Oops! Lumo is not available right now. Please check the setup.''"

definition quiet :: string where
  "quiet = ''Lumo seems to be quiet right now.''"

definition wobbly :: string where
  "wobbly = ''Oh dear, something went a bit wobbly with Lumo!''"

subsection \<open>What the surroundings decide in one turn\<close>

text \<open>
  \<open>gateway\<close> is \<open>self.llm.invoke\<close>: the assistant text, or the exception it raises.
  \<open>fault\<close> is an exception raised by the graph library itself during
  \<open>ai_toy_app.invoke\<close>, at one of the three points of its run: before the input is
  stored, after the input checkpoint, or after the node's output is stored.
\<close>

datatype graph_fault = FaultOnLoad exn | FaultAfterInput exn | FaultAfterNode exn

record turn_env =
  gateway :: "message list \<Rightarrow> exn + string"
  fault :: "graph_fault option"

subsection \<open>\<open>_call_toy_llm\<close>\<close>

text \<open>The node: the update it returns for \<open>messages\<close>, and the lists sent to the chat
  model (none or one).\<close>

definition call_toy_llm ::
  "agent \<Rightarrow> (message list \<Rightarrow> exn + string) \<Rightarrow> message list \<Rightarrow> message list \<times> message list list" where
  "call_toy_llm ag gw messages =
     (case llm ag of
        None \<Rightarrow> ([AIMessage trouble_thinking], [])
      | Some _ \<Rightarrow>
          (let current_messages_with_system_prompt = [SystemMessage (system_prompt ag)] @ messages
           in case gw current_messages_with_system_prompt of
                Inr response \<Rightarrow> ([AIMessage response], [current_messages_with_system_prompt])
              | Inl e \<Rightarrow> ([AIMessage thinking_cap], [current_messages_with_system_prompt])))"

subsection \<open>The compiled graph\<close>

text \<open>The state a graph run returns: a dictionary with the key \<open>messages\<close>.\<close>

type_synonym state_dict = "(string \<times> message list) list"

definition store :: "agent \<Rightarrow> string \<Rightarrow> message list \<Rightarrow> agent" where
  "store ag c ms = ag\<lparr>memory := (memory ag)(c \<mapsto> ms)\<rparr>"

text \<open>\<open>ai_toy_app.invoke({"messages": input}, config)\<close> with
  \<open>thread_id = conversation_id\<close>: the outcome (the final state, or the exception of a
  library fault), the agent with its checkpointer updated, and the lists sent to the
  chat model.\<close>

definition ai_toy_app_invoke ::
  "agent \<Rightarrow> turn_env \<Rightarrow> message list \<Rightarrow> string
     \<Rightarrow> (exn + state_dict option) \<times> agent \<times> message list list" where
  "ai_toy_app_invoke ag env input conversation_id =
     (case fault env of
        Some (FaultOnLoad e) \<Rightarrow> (Inl e, ag, [])
      | Some (FaultAfterInput e) \<Rightarrow>
          (Inl e, store ag conversation_id (history ag conversation_id @ input), [])
      | Some (FaultAfterNode e) \<Rightarrow>
          (let messages = history ag conversation_id @ input;
               (update, requests) = call_toy_llm ag (gateway env) messages
           in (Inl e, store ag conversation_id (messages @ update), requests))
      | None \<Rightarrow>
          (let messages = history ag conversation_id @ input;
               (update, requests) = call_toy_llm ag (gateway env) messages
           in (Inr (Some [(''messages'', messages @ update)]),
               store ag conversation_id (messages @ update), requests)))"

subsection \<open>\<open>update_system_prompt\<close> and \<open>invoke_agent\<close>\<close>

definition update_system_prompt :: "agent \<Rightarrow> string \<Rightarrow> agent" where
  "update_system_prompt ag new_system_prompt = ag\<lparr>system_prompt := new_system_prompt\<rparr>"

text \<open>Lines 140 to 144: the text read off the state the graph returned.\<close>

definition reply_of :: "state_dict option \<Rightarrow> string" where
  "reply_of response_state =
     (case response_state of
        None \<Rightarrow> quiet
      | Some d \<Rightarrow>
          (if d = [] then quiet
           else case map_of d ''messages'' of
                  None \<Rightarrow> quiet
                | Some ms \<Rightarrow>
                    (if ms = [] then quiet
                     else case last ms of
                            AIMessage content \<Rightarrow> content
                          | _ \<Rightarrow> quiet)))"

text \<open>The result is the text returned, the agent afterwards, and the lists sent to the
  chat model during the call.\<close>

definition invoke_agent ::
  "agent \<Rightarrow> turn_env \<Rightarrow> string \<Rightarrow> string \<Rightarrow> string \<times> agent \<times> message list list" where
  "invoke_agent ag env user_input conversation_id =
     (if llm ag = None then (not_available, ag, [])
      else case ai_toy_app_invoke ag env [HumanMessage user_input] conversation_id of
             (Inr response_state, ag', requests) \<Rightarrow> (reply_of response_state, ag', requests)
           | (Inl e, ag', requests) \<Rightarrow> (wobbly, ag', requests))"

subsection \<open>Construction: \<open>_initialize_llm\<close> and \<open>__init__\<close>\<close>


text \<open>What the page shows through \<open>st.error\<close>, \<open>st.success\<close> and \<open>st.info\<close>
  (titles, chat bubbles and spinners are not recorded).\<close>

datatype shown = StError string | StSuccess string | StInfo string

text \<open>
  What the surroundings decide while the agent is built: the Streamlit secrets, whether
  \<open>genai.configure\<close> or the constructor of the chat model raises, and the outcome of
  the test call \<open>llm.invoke("Hello!")\<close>. Reading \<open>st.secrets\<close> without a usable
  secrets file raises, after Streamlit has shown the text of the exception on the page
  with \<open>st.error\<close>.
\<close>

record startup_env =
  secrets :: "exn + (string \<rightharpoonup> (string \<rightharpoonup> string))"
  configure_raises :: "exn option"
  construct_raises :: "exn option"
  probe :: "exn + string"

text \<open>The body of the \<open>try\<close> block of \<open>_initialize_llm\<close>: its outcome, what it makes
  the page show, and the lists it sends to the chat model (the test call sends the
  text \<open>Hello!\<close>, which the client wraps into one user message).\<close>

definition try_initialize_llm ::
  "startup_env \<Rightarrow> string \<Rightarrow> (exn + chat_model) \<times> shown list \<times> message list list" where
  "try_initialize_llm env name =
     (case secrets env of
        Inl e \<Rightarrow> (Inl e, [StError (message_of e)], [])
      | Inr st_secrets \<Rightarrow>
          (case st_secrets ''gemini'' of
             None \<Rightarrow> (Inl (ValueError ''Gemini API key not found in Streamlit secrets''), [], [])
           | Some gemini \<Rightarrow>
               (case gemini ''api_key'' of
                  None \<Rightarrow> (Inl (KeyError ''api_key''), [], [])
                | Some api_key \<Rightarrow>
                    (case configure_raises env of
                       Some e \<Rightarrow> (Inl e, [], [])
                     | None \<Rightarrow>
                         (case construct_raises env of
                            Some e \<Rightarrow> (Inl e, [], [])
                          | None \<Rightarrow>
                              (case probe env of
                                 Inl e \<Rightarrow> (Inl e, [], [[HumanMessage ''Hello!'']])
                               | Inr _ \<Rightarrow>
                                   (Inr \<lparr>model = name, google_api_key = api_key\<rparr>, [],
                                    [[HumanMessage ''Hello!'']])))))))"

text \<open>\<open>_initialize_llm\<close>: the \<open>except\<close> branch turns every exception into \<open>None\<close>.\<close>

definition initialize_llm :: "startup_env \<Rightarrow> string \<Rightarrow> chat_model option" where
  "initialize_llm env name =
     (case fst (try_initialize_llm env name) of Inl e \<Rightarrow> None | Inr l \<Rightarrow> Some l)"



text \<open>\<open>__init__\<close>: the agent it builds. What building it shows and sends is given by
  \<open>initialize_llm_page\<close> and \<open>initialize_llm_sent\<close>.\<close>

definition LumoAgent :: "startup_env \<Rightarrow> string \<Rightarrow> string \<Rightarrow> agent" where
  "LumoAgent env initial_system_prompt name =
     \<lparr>system_prompt = initial_system_prompt, model_name = name,
      llm = initialize_llm env name, memory = Map.empty\<rparr>"

subsection \<open>The Streamlit script (streamlit\_app.py)\<close>

text \<open>
  Streamlit runs the script from top to bottom at every interaction; what survives from
  one run to the next is \<open>st.session_state\<close>, a dictionary whose four keys may be absent.
  The entries of \<open>messages\<close> are the dictionaries \<open>{"role": r, "content": t}\<close>, kept
  as pairs. Reading an absent key raises \<open>AttributeError\<close>, which ends the run.
\<close>

record session_state =
  conversation_id :: "string option"
  current_system_prompt :: "string option"
  agent :: "agent option"
  messages :: "(string \<times> string) list option"
























subsection \<open>Sequences of calls, and the values used in examples\<close>

abbreviation returned :: "string \<times> agent \<times> message list list \<Rightarrow> string" where
  "returned r \<equiv> fst r"

abbreviation agent_after :: "string \<times> agent \<times> message list list \<Rightarrow> agent" where
  "agent_after r \<equiv> fst (snd r)"

abbreviation requests_of :: "string \<times> agent \<times> message list list \<Rightarrow> message list list" where
  "requests_of r \<equiv> snd (snd r)"

text \<open>A client of one agent calls \<open>invoke_agent\<close> and \<open>update_system_prompt\<close> in
  some order; each call of \<open>invoke_agent\<close> meets its own surroundings.\<close>

datatype call = Submit turn_env string string | SetPrompt string

fun apply_call :: "agent \<Rightarrow> call \<Rightarrow> agent" where
  "apply_call ag (Submit env user_input c) = agent_after (invoke_agent ag env user_input c)"
| "apply_call ag (SetPrompt x) = update_system_prompt ag x"

definition run_calls :: "agent \<Rightarrow> call list \<Rightarrow> agent" where
  "run_calls ag calls = foldl apply_call ag calls"

definition demo_agent :: agent where
  "demo_agent = \<lparr>system_prompt = ''Be kind.'', model_name = MODEL_NAME,
                  llm = Some \<lparr>model = MODEL_NAME, google_api_key = ''k''\<rparr>,
                  memory = Map.empty\<rparr>"

definition offline_agent :: agent where
  "offline_agent = \<lparr>system_prompt = ''Be kind.'', model_name = MODEL_NAME,
                     llm = None, memory = Map.empty\<rparr>"

definition friendly_env :: turn_env where
  "friendly_env = \<lparr>gateway = (\<lambda>_. Inr ''Hi there, friend!''), fault = None\<rparr>"

definition unreachable_env :: turn_env where
  "unreachable_env = \<lparr>gateway = (\<lambda>_. Inl (NetworkFailure ''connection refused'')), fault = None\<rparr>"



definition broken_graph_env :: turn_env where
  "broken_graph_env = \<lparr>gateway = (\<lambda>_. Inr ''Hi there, friend!''),
                        fault = Some (FaultOnLoad (OtherException ''checkpoint''))\<rparr>"

subsection \<open>Reading a session, and the values used in examples of the script\<close>
















section \<open>Properties of the agent\<close>

subsection \<open>Auxiliary facts\<close>

lemma history_store: "history (store ag c ms) c' = (if c' = c then ms else history ag c')"
  by (simp add: history_def store_def)

lemma invoke_agent_unavailable:
  "llm ag = None \<Longrightarrow> invoke_agent ag env text c = (not_available, ag, [])"
  by (simp add: invoke_agent_def)

lemma invoke_agent_replied:
  assumes "llm ag \<noteq> None" and "fault env = None"
    and "gateway env ([SystemMessage (system_prompt ag)] @ history ag c @ [HumanMessage text]) = Inr reply"
  shows "invoke_agent ag env text c =
           (reply, store ag c (history ag c @ [HumanMessage text, AIMessage reply]),
            [[SystemMessage (system_prompt ag)] @ history ag c @ [HumanMessage text]])"
  using assms
  by (auto simp: invoke_agent_def ai_toy_app_invoke_def call_toy_llm_def reply_of_def Let_def)

lemma invoke_agent_raised:
  assumes "llm ag \<noteq> None" and "fault env = None"
    and "gateway env ([SystemMessage (system_prompt ag)] @ history ag c @ [HumanMessage text]) = Inl e"
  shows "invoke_agent ag env text c =
           (thinking_cap, store ag c (history ag c @ [HumanMessage text, AIMessage thinking_cap]),
            [[SystemMessage (system_prompt ag)] @ history ag c @ [HumanMessage text]])"
  using assms
  by (auto simp: invoke_agent_def ai_toy_app_invoke_def call_toy_llm_def reply_of_def Let_def)

lemma invoke_agent_fault:
  assumes "llm ag \<noteq> None" and "fault env = Some f"
  shows "returned (invoke_agent ag env text c) = wobbly"
  using assms
  by (cases f) (auto simp: invoke_agent_def ai_toy_app_invoke_def Let_def split: prod.splits)


lemma invoke_agent_requests:
  "requests_of (invoke_agent ag env text c) = [] \<or>
   requests_of (invoke_agent ag env text c) =
     [[SystemMessage (system_prompt ag)] @ history ag c @ [HumanMessage text]]"
  by (auto simp: invoke_agent_def ai_toy_app_invoke_def call_toy_llm_def Let_def
           split: option.splits graph_fault.splits sum.splits)

text \<open>Whatever happens in a turn, every stored list is extended at its end, and by no
  system message.\<close>

lemma invoke_agent_extends:
  "\<exists>zs. (\<forall>c'. history (agent_after (invoke_agent ag env text c)) c' =
               history ag c' @ (if c' = c then zs else []))
        \<and> (\<forall>p. SystemMessage p \<notin> set zs)"
  by (auto simp: invoke_agent_def ai_toy_app_invoke_def call_toy_llm_def Let_def history_store
           split: option.splits graph_fault.splits sum.splits)

lemma system_prompt_updates:
  "system_prompt (foldl update_system_prompt ag ps) = last (system_prompt ag # ps)"
  by (induction ps arbitrary: ag) (auto simp: update_system_prompt_def)

lemma memory_updates: "memory (foldl update_system_prompt ag ps) = memory ag"
  by (induction ps arbitrary: ag) (auto simp: update_system_prompt_def)

lemma llm_updates: "llm (foldl update_system_prompt ag ps) = llm ag"
  by (induction ps arbitrary: ag) (auto simp: update_system_prompt_def)

lemma history_updates: "history (foldl update_system_prompt ag ps) c = history ag c"
  by (simp add: history_def memory_updates)

lemma apply_call_extends:
  "\<exists>zs. history (apply_call ag k) c = history ag c @ zs \<and> (\<forall>p. SystemMessage p \<notin> set zs)"
proof (cases k)
  case (Submit env u c0)
  obtain zs where zs:
    "\<forall>c'. history (agent_after (invoke_agent ag env u c0)) c' =
            history ag c' @ (if c' = c0 then zs else [])"
    "\<forall>p. SystemMessage p \<notin> set zs"
    using invoke_agent_extends by blast
  show ?thesis
  proof (cases "c = c0")
    case True
    with zs Submit show ?thesis by auto
  next
    case False
    with zs Submit show ?thesis by auto
  qed
next
  case (SetPrompt x)
  then show ?thesis by (simp add: update_system_prompt_def history_def)
qed

lemma run_calls_extends:
  "\<exists>zs. history (run_calls ag calls) c = history ag c @ zs \<and> (\<forall>p. SystemMessage p \<notin> set zs)"
proof (induction calls arbitrary: ag)
  case Nil
  then show ?case by (simp add: run_calls_def)
next
  case (Cons k calls)
  obtain ys where ys: "history (apply_call ag k) c = history ag c @ ys"
      "\<forall>p. SystemMessage p \<notin> set ys"
    using apply_call_extends by blast
  obtain zs where zs:
      "history (run_calls (apply_call ag k) calls) c = history (apply_call ag k) c @ zs"
      "\<forall>p. SystemMessage p \<notin> set zs"
    using Cons.IH by blast
  have "history (run_calls ag (k # calls)) c = history ag c @ (ys @ zs)"
    using ys zs by (simp add: run_calls_def)
  moreover have "\<forall>p. SystemMessage p \<notin> set (ys @ zs)"
    using ys zs by simp
  ultimately show ?case by blast
qed

lemma run_calls_append: "run_calls ag (xs @ ys) = run_calls (run_calls ag xs) ys"
  by (simp add: run_calls_def)

lemma history_LumoAgent: "history (LumoAgent senv p name) c = []"
  by (simp add: LumoAgent_def history_def)

subsection \<open>The claims about the agent\<close>







text \<open>
  Claim C3. After any number of persona updates, every list handed to the chat model by
  \<open>invoke_agent\<close> is the system message with the latest persona, then the stored history
  of the conversation, then the new user message; and such a list is handed over exactly
  once when the agent has its model and the graph library raises nothing.
\<close>

theorem outbound_message_list:
  "(\<forall>req \<in> set (requests_of (invoke_agent (foldl update_system_prompt ag ps) env user_text c)).
       req = [SystemMessage (last (system_prompt ag # ps))] @ history ag c @ [HumanMessage user_text])
   \<and> (llm ag \<noteq> None \<and> fault env = None \<longrightarrow>
        requests_of (invoke_agent (foldl update_system_prompt ag ps) env user_text c) =
          [[SystemMessage (last (system_prompt ag # ps))] @ history ag c @ [HumanMessage user_text]])"
proof
  let ?ag = "foldl update_system_prompt ag ps"
  let ?req = "[SystemMessage (last (system_prompt ag # ps))] @ history ag c @ [HumanMessage user_text]"
  have req: "[SystemMessage (system_prompt ?ag)] @ history ?ag c @ [HumanMessage user_text] = ?req"
    by (simp only: system_prompt_updates history_updates)
  from invoke_agent_requests [of ?ag env user_text c]
  show "\<forall>r \<in> set (requests_of (invoke_agent ?ag env user_text c)). r = ?req"
    unfolding req by auto
  show "llm ag \<noteq> None \<and> fault env = None \<longrightarrow> requests_of (invoke_agent ?ag env user_text c) = [?req]"
  proof
    assume a: "llm ag \<noteq> None \<and> fault env = None"
    then have l: "llm ?ag \<noteq> None" and f: "fault env = None"
      by (simp_all add: llm_updates)
    show "requests_of (invoke_agent ?ag env user_text c) = [?req]"
    proof (cases "gateway env ([SystemMessage (system_prompt ?ag)] @ history ?ag c @ [HumanMessage user_text])")
      case (Inl e)
      from invoke_agent_raised [OF l f Inl] show ?thesis unfolding req by simp
    next
      case (Inr reply)
      from invoke_agent_replied [OF l f Inr] show ?thesis unfolding req by simp
    qed
  qed
qed

text \<open>Two persona updates, then a turn: the second persona is sent (C3).\<close>

theorem outbound_message_list_witness:
  "llm demo_agent \<noteq> None \<and> fault friendly_env = None
   \<and> requests_of (invoke_agent
        (foldl update_system_prompt demo_agent [''Be a pirate.'', ''Be a robot.'']) friendly_env ''Hi'' ''c1'')
        = [[SystemMessage ''Be a robot.'', HumanMessage ''Hi'']]"
proof -
  have l: "llm demo_agent \<noteq> None"
    by (simp add: demo_agent_def)
  have f: "fault friendly_env = None"
    by (simp add: friendly_env_def)
  have req: "[SystemMessage (last (system_prompt demo_agent # [''Be a pirate.'', ''Be a robot.'']))]
               @ history demo_agent ''c1'' @ [HumanMessage ''Hi'']
             = [SystemMessage ''Be a robot.'', HumanMessage ''Hi'']"
    by (simp add: demo_agent_def history_def)
  from outbound_message_list [of demo_agent "[''Be a pirate.'', ''Be a robot.'']" friendly_env "''Hi''" "''c1''"]
  show ?thesis
    unfolding req using l f by blast
qed

text \<open>
  Claim C4. Starting from a newly built agent, no sequence of calls stores a system
  message in any conversation; and along any sequence of calls the history of a
  conversation only grows at its end: what was stored stays, unchanged and in place.
\<close>

theorem history_never_system_and_monotone:
  "SystemMessage p \<notin> set (history (run_calls (LumoAgent senv prompt name) calls) c)
   \<and> prefix (history (run_calls ag calls) c) (history (run_calls ag (calls @ later)) c)"
proof
  obtain zs where "history (run_calls (LumoAgent senv prompt name) calls) c
                     = history (LumoAgent senv prompt name) c @ zs" "\<forall>p. SystemMessage p \<notin> set zs"
    using run_calls_extends by blast
  then show "SystemMessage p \<notin> set (history (run_calls (LumoAgent senv prompt name) calls) c)"
    by (simp add: history_LumoAgent)
next
  obtain zs where "history (run_calls (run_calls ag calls) later) c = history (run_calls ag calls) c @ zs"
    using run_calls_extends by blast
  then show "prefix (history (run_calls ag calls) c) (history (run_calls ag (calls @ later)) c)"
    by (simp add: run_calls_append)
qed

text \<open>
  Claim C5, as the code has it. When the graph invocation raises no exception of its own,
  every exception raised by the call of the chat model, whatever its kind, gives the same
  returned text (the apology of the node). The other failures give other fixed texts:
  whenever the graph invocation raises (also after a call of the chat model that raised)
  the text of the outer handler is returned, and an agent without a model gives the text
  of the guard.
\<close>

theorem gateway_failures_collapse:
  "(llm ag \<noteq> None \<and> fault env = None
      \<and> gateway env ([SystemMessage (system_prompt ag)] @ history ag c @ [HumanMessage user_text]) = Inl e
      \<longrightarrow> returned (invoke_agent ag env user_text c) = thinking_cap)
   \<and> (llm ag' \<noteq> None \<and> fault env' = Some f
      \<longrightarrow> returned (invoke_agent ag' env' user_text' c') = wobbly)
   \<and> (llm ag'' = None \<longrightarrow> returned (invoke_agent ag'' env'' user_text'' c'') = not_available)"
  by (simp add: invoke_agent_raised invoke_agent_fault invoke_agent_unavailable)

text \<open>One input for each of the three cases of C5.\<close>

theorem gateway_failures_collapse_witness:
  "llm demo_agent \<noteq> None \<and> fault unreachable_env = None
   \<and> gateway unreachable_env ([SystemMessage (system_prompt demo_agent)] @ history demo_agent ''c1''
        @ [HumanMessage ''Hi'']) = Inl (NetworkFailure ''connection refused'')
   \<and> returned (invoke_agent demo_agent unreachable_env ''Hi'' ''c1'') = thinking_cap
   \<and> fault broken_graph_env = Some (FaultOnLoad (OtherException ''checkpoint''))
   \<and> returned (invoke_agent demo_agent broken_graph_env ''Hi'' ''c1'') = wobbly
   \<and> llm offline_agent = None
   \<and> returned (invoke_agent offline_agent friendly_env ''Hi'' ''c1'') = not_available"
proof -
  have l: "llm demo_agent \<noteq> None" "llm offline_agent = None"
    by (simp_all add: demo_agent_def offline_agent_def)
  have f: "fault unreachable_env = None"
      "fault broken_graph_env = Some (FaultOnLoad (OtherException ''checkpoint''))"
    by (simp_all add: unreachable_env_def broken_graph_env_def)
  have g: "gateway unreachable_env ([SystemMessage (system_prompt demo_agent)] @ history demo_agent ''c1''
        @ [HumanMessage ''Hi'']) = Inl (NetworkFailure ''connection refused'')"
    by (simp add: unreachable_env_def)
  from gateway_failures_collapse [of demo_agent unreachable_env "''c1''" "''Hi''"
      "NetworkFailure ''connection refused''" demo_agent broken_graph_env
      "FaultOnLoad (OtherException ''checkpoint'')" "''Hi''" "''c1''"
      offline_agent friendly_env "''Hi''" "''c1''"]
  show ?thesis using l f g by blast
qed

text \<open>
  Claim C5 as it is stated (one text for every failing call) fails: a refused connection,
  an exception of the graph invocation and a missing model give three different texts.
\<close>

theorem failure_texts_differ:
  "returned (invoke_agent demo_agent unreachable_env ''Hi'' ''c1'') = thinking_cap
   \<and> returned (invoke_agent demo_agent broken_graph_env ''Hi'' ''c1'') = wobbly
   \<and> returned (invoke_agent offline_agent friendly_env ''Hi'' ''c1'') = not_available
   \<and> thinking_cap \<noteq> wobbly \<and> thinking_cap \<noteq> not_available \<and> wobbly \<noteq> not_available"
proof -
  have "returned (invoke_agent demo_agent unreachable_env ''Hi'' ''c1'') = thinking_cap"
    by (simp add: invoke_agent_def ai_toy_app_invoke_def call_toy_llm_def reply_of_def
        demo_agent_def unreachable_env_def)
  moreover have "returned (invoke_agent demo_agent broken_graph_env ''Hi'' ''c1'') = wobbly"
    by (simp add: invoke_agent_def ai_toy_app_invoke_def demo_agent_def broken_graph_env_def)
  moreover have "returned (invoke_agent offline_agent friendly_env ''Hi'' ''c1'') = not_available"
    by (simp add: invoke_agent_def offline_agent_def)
  moreover have "thinking_cap \<noteq> wobbly \<and> thinking_cap \<noteq> not_available \<and> wobbly \<noteq> not_available"
    by (simp add: thinking_cap_def wobbly_def not_available_def)
  ultimately show ?thesis by blast
qed

text \<open>
  Claim C8. \<open>update_system_prompt\<close> leaves the checkpointer, and so every stored message
  of every conversation, as it was; the new persona is what the next call of
  \<open>invoke_agent\<close> sends as system message.
\<close>

theorem persona_update_keeps_history:
  "memory (update_system_prompt ag x) = memory ag
   \<and> history (update_system_prompt ag x) c = history ag c
   \<and> (llm ag \<noteq> None \<and> fault env = None \<longrightarrow>
        requests_of (invoke_agent (update_system_prompt ag x) env user_text c) =
          [[SystemMessage x] @ history ag c @ [HumanMessage user_text]])"
proof -
  have m: "memory (update_system_prompt ag x) = memory ag"
    by (simp add: update_system_prompt_def)
  then have h: "history (update_system_prompt ag x) c = history ag c"
    by (simp add: history_def)
  have "requests_of (invoke_agent (update_system_prompt ag x) env user_text c) =
          [[SystemMessage x] @ history ag c @ [HumanMessage user_text]]"
    if a: "llm ag \<noteq> None \<and> fault env = None"
  proof -
    let ?ag = "update_system_prompt ag x"
    have l: "llm ?ag \<noteq> None" and f: "fault env = None" and p: "system_prompt ?ag = x"
      using a by (simp_all add: update_system_prompt_def)
    show ?thesis
    proof (cases "gateway env ([SystemMessage (system_prompt ?ag)] @ history ?ag c @ [HumanMessage user_text])")
      case (Inl e)
      from invoke_agent_raised [OF l f Inl] show ?thesis by (simp add: p h)
    next
      case (Inr reply)
      from invoke_agent_replied [OF l f Inr] show ?thesis by (simp add: p h)
    qed
  qed
  with m h show ?thesis by blast
qed

text \<open>A persona update followed by a turn (C8).\<close>

theorem persona_update_keeps_history_witness:
  "llm demo_agent \<noteq> None \<and> fault friendly_env = None
   \<and> memory (update_system_prompt demo_agent ''Be a robot.'') = memory demo_agent
   \<and> requests_of (invoke_agent (update_system_prompt demo_agent ''Be a robot.'') friendly_env ''Hi'' ''c1'')
       = [[SystemMessage ''Be a robot.'', HumanMessage ''Hi'']]"
proof -
  have l: "llm demo_agent \<noteq> None"
    by (simp add: demo_agent_def)
  have f: "fault friendly_env = None"
    by (simp add: friendly_env_def)
  have req: "[SystemMessage ''Be a robot.''] @ history demo_agent ''c1'' @ [HumanMessage ''Hi'']
             = [SystemMessage ''Be a robot.'', HumanMessage ''Hi'']"
    by (simp add: demo_agent_def history_def)
  from persona_update_keeps_history [of demo_agent "''Be a robot.''" "''c1''" friendly_env "''Hi''"]
  show ?thesis
    unfolding req using l f by blast
qed

text \<open>
  Claim C9. Reading the persona right after \<open>update_system_prompt ag x\<close> gives \<open>x\<close>
  itself, for every text \<open>x\<close>: nothing is checked and nothing is changed.
\<close>

theorem persona_set_then_get:
  "system_prompt (update_system_prompt ag x) = x"
  by (simp add: update_system_prompt_def)

text \<open>
  Claim C10. \<open>invoke_agent\<close> returns a text in every case, for every conversation and
  every input: the fixed text of the guard without a model, the fixed text of the outer
  handler when the graph invocation raises, and otherwise the content of the last
  message of the returned state, which is the reply of the chat model or the apology of
  the node. Reading the returned state gives the fixed text \<open>quiet\<close> when there is no
  state, no \<open>messages\<close> entry, no message, or a last message that is not an assistant
  message.
\<close>

theorem invoke_agent_always_returns:
  "returned (invoke_agent ag env user_text c) =
     (if llm ag = None then not_available
      else case fault env of
             Some f \<Rightarrow> wobbly
           | None \<Rightarrow>
               (case gateway env ([SystemMessage (system_prompt ag)] @ history ag c @ [HumanMessage user_text]) of
                  Inr reply \<Rightarrow> reply
                | Inl e \<Rightarrow> thinking_cap))
   \<and> reply_of None = quiet
   \<and> reply_of (Some []) = quiet
   \<and> reply_of (Some [(''values'', ms)]) = quiet
   \<and> reply_of (Some [(''messages'', [])]) = quiet
   \<and> reply_of (Some [(''messages'', ms @ [HumanMessage t])]) = quiet
   \<and> reply_of (Some [(''messages'', ms @ [SystemMessage t])]) = quiet
   \<and> reply_of (Some [(''messages'', ms @ [AIMessage t])]) = t"
proof -
  have "returned (invoke_agent ag env user_text c) =
     (if llm ag = None then not_available
      else case fault env of
             Some f \<Rightarrow> wobbly
           | None \<Rightarrow>
               (case gateway env ([SystemMessage (system_prompt ag)] @ history ag c @ [HumanMessage user_text]) of
                  Inr reply \<Rightarrow> reply
                | Inl e \<Rightarrow> thinking_cap))"
  proof (cases "llm ag = None")
    case True
    then show ?thesis by (simp add: invoke_agent_unavailable)
  next
    case l: False
    show ?thesis
    proof (cases "fault env")
      case (Some f)
      from l have "returned (invoke_agent ag env user_text c) = wobbly"
        using Some by (rule invoke_agent_fault)
      with l Some show ?thesis by auto
    next
      case None
      show ?thesis
      proof (cases "gateway env ([SystemMessage (system_prompt ag)] @ history ag c @ [HumanMessage user_text])")
        case (Inl e)
        from invoke_agent_raised [OF l None Inl] l None Inl show ?thesis by auto
      next
        case (Inr reply)
        from invoke_agent_replied [OF l None Inr] l None Inr show ?thesis by auto
      qed
    qed
  qed
  moreover have "reply_of None = quiet" "reply_of (Some []) = quiet"
     "reply_of (Some [(''values'', ms)]) = quiet"
     "reply_of (Some [(''messages'', [])]) = quiet"
     "reply_of (Some [(''messages'', ms @ [HumanMessage t])]) = quiet"
     "reply_of (Some [(''messages'', ms @ [SystemMessage t])]) = quiet"
     "reply_of (Some [(''messages'', ms @ [AIMessage t])]) = t"
    by (simp_all add: reply_of_def)
  ultimately show ?thesis by blast
qed

text \<open>The empty input in the four cases of C10.\<close>

theorem invoke_agent_always_returns_witness:
  "returned (invoke_agent demo_agent friendly_env '''' ''c1'') = ''Hi there, friend!''
   \<and> returned (invoke_agent offline_agent friendly_env '''' ''c1'') = not_available
   \<and> returned (invoke_agent demo_agent broken_graph_env '''' ''c1'') = wobbly
   \<and> returned (invoke_agent demo_agent unreachable_env '''' ''c1'') = thinking_cap"
proof -
  have 1: "returned (invoke_agent demo_agent friendly_env '''' ''c1'') = ''Hi there, friend!''"
    using invoke_agent_always_returns [of demo_agent friendly_env "''''" "''c1''"]
    by (simp add: demo_agent_def friendly_env_def)
  have 2: "returned (invoke_agent offline_agent friendly_env '''' ''c1'') = not_available"
    using invoke_agent_always_returns [of offline_agent friendly_env "''''" "''c1''"]
    by (simp add: offline_agent_def)
  have 3: "returned (invoke_agent demo_agent broken_graph_env '''' ''c1'') = wobbly"
    using invoke_agent_always_returns [of demo_agent broken_graph_env "''''" "''c1''"]
    by (simp add: demo_agent_def broken_graph_env_def)
  have 4: "returned (invoke_agent demo_agent unreachable_env '''' ''c1'') = thinking_cap"
    using invoke_agent_always_returns [of demo_agent unreachable_env "''''" "''c1''"]
    by (simp add: demo_agent_def unreachable_env_def)
  from 1 2 3 4 show ?thesis by blast
qed

section \<open>Properties of the Streamlit script\<close>

subsection \<open>Auxiliary facts\<close>























subsection \<open>The claims about the script\<close>







end
